theory Spec2Isabelle
  imports Main "HOL-Library.Word" "HOL-Library.Sublist"
begin

section \<open>The MySQL driver and the processor clock\<close>

text \<open>
  The pool talks to two things outside the repository: the MySQL client library and the C
  function \<open>clock()\<close>. What they answer during one operation is an explicit argument of the
  model, the record \<open>env\<close>: the value \<open>clock()\<close> returns, whether \<open>mysql_init\<close> and
  \<open>mysql_real_connect\<close> return a non-null pointer, the address at which
  \<open>std::make_unique<connection>()\<close> places a new object, and the indeterminate value of the
  member \<open>_alivetime\<close>, which the constructor of \<open>connection\<close> does not initialise.

  A driver handle (\<open>MYSQL*\<close>) carries one bit of state: whether its link to the server is up.
  \<open>mysql_ping\<close> returns 0 exactly when it is.
\<close>

type_synonym clock_t = int

datatype MYSQL = Driver_handle (link_up: bool)

record env =
  clock :: clock_t
  mysql_init_ok :: bool
  mysql_real_connect_ok :: bool
  address :: nat
  indeterminate :: clock_t

definition mysql_ping :: "MYSQL \<Rightarrow> int" where
  "mysql_ping h = (if link_up h then 0 else 1)"

text \<open>
  The durations of \<open>std::chrono\<close> the sources build (\<open>chrono::microseconds\<close>,
  \<open>chrono::seconds\<close>) and the one the specification speaks of (milliseconds), with their
  length in microseconds.
\<close>

datatype duration = Microseconds int | Milliseconds int | Seconds int

fun in_microseconds :: "duration \<Rightarrow> int" where
  "in_microseconds (Microseconds n) = n"
| "in_microseconds (Milliseconds n) = n * 1000"
| "in_microseconds (Seconds n) = n * 1000000"

section \<open>Connection.h, Connection.cpp: class connection\<close>

record connection =
  addr :: nat
  conn :: "MYSQL option"
  alivetime :: clock_t

text \<open>\<open>connection::connection()\<close>: \<open>_conn = mysql_init(nullptr)\<close>.\<close>

definition new_connection :: "env \<Rightarrow> connection" where
  "new_connection e =
     \<lparr>addr = address e,
      conn = (if mysql_init_ok e then Some (Driver_handle False) else None),
      alivetime = indeterminate e\<rparr>"

text \<open>
  \<open>connection::connect\<close>: \<open>return mysql_real_connect(_conn, ...) != nullptr\<close>. On a null
  \<open>_conn\<close> the driver has nothing to connect, which is modelled as a failed call.
\<close>

definition connect ::
  "env \<Rightarrow> string \<Rightarrow> 16 word \<Rightarrow> string \<Rightarrow> string \<Rightarrow> string \<Rightarrow> connection \<Rightarrow> bool \<times> connection" where
  "connect e ip port user password dbname c =
     (case conn c of
        None \<Rightarrow> (False, c)
      | Some h \<Rightarrow>
          if mysql_real_connect_ok e then (True, c\<lparr>conn := Some (Driver_handle True)\<rparr>)
          else (False, c\<lparr>conn := Some (Driver_handle False)\<rparr>))"

text \<open>
  \<open>connection::reconnect\<close>: close, \<open>mysql_init\<close>, \<open>mysql_real_connect\<close>; failure is
  reported by the return value \<open>false\<close>. The function has no \<open>throw\<close>.
\<close>

definition reconnect ::
  "env \<Rightarrow> string \<Rightarrow> 16 word \<Rightarrow> string \<Rightarrow> string \<Rightarrow> string \<Rightarrow> connection \<Rightarrow> bool \<times> connection" where
  "reconnect e ip port user password dbname c =
     (if \<not> mysql_init_ok e then (False, c\<lparr>conn := None\<rparr>)
      else if \<not> mysql_real_connect_ok e then (False, c\<lparr>conn := Some (Driver_handle False)\<rparr>)
      else (True, c\<lparr>conn := Some (Driver_handle True)\<rparr>))"

text \<open>\<open>bool connection::isValid(int timeout = 30)\<close>.\<close>

definition isValid :: "int \<Rightarrow> connection \<Rightarrow> bool" where
  "isValid timeout c =
     (case conn c of
        None \<Rightarrow> False
      | Some h \<Rightarrow> if mysql_ping h = 0 then True else False)"

text \<open>\<open>refreshsAliveTime(){ _alivetime = clock(); }\<close> and
  \<open>getAliveTime() const { return clock() - _alivetime; }\<close>, both in clock ticks.\<close>

definition refreshsAliveTime :: "env \<Rightarrow> connection \<Rightarrow> connection" where
  "refreshsAliveTime e c = c\<lparr>alivetime := clock e\<rparr>"

definition getAliveTime :: "env \<Rightarrow> connection \<Rightarrow> clock_t" where
  "getAliveTime e c = clock e - alivetime c"

section \<open>ConfigManager.h, ConfigManager.cpp\<close>

text \<open>
  The two exceptions of the sources: \<open>throw std::runtime_error(msg)\<close>, thrown by value in
  \<open>getconnection\<close>, and \<open>throw new std::runtime_error(msg)\<close>, a pointer, thrown by
  \<open>createConfigManager\<close>. A handler \<open>catch (const std::exception&)\<close> matches the first only.
\<close>

datatype exception = Runtime_error string | Runtime_error_pointer string

text \<open>The preprocessor symbols that decide which backends are compiled in.\<close>

record build_flags =
  USE_SIMPLE_INI :: bool
  USE_YAML_CPP :: bool

datatype backend = IniConfigManager | YamlConfigManager

text \<open>
  What the chosen backend finds in a file: whether \<open>loadConfig\<close> succeeds, and the values
  of the keys it can read. Both backends return the default for a key they cannot read.
\<close>

record config_source =
  loads :: bool
  string_value :: "string \<Rightarrow> string option"
  int_value :: "string \<Rightarrow> int option"

definition getString :: "config_source \<Rightarrow> string \<Rightarrow> string \<Rightarrow> string" where
  "getString src key defaultValue =
     (case string_value src key of Some v \<Rightarrow> v | None \<Rightarrow> defaultValue)"

definition getInt :: "config_source \<Rightarrow> string \<Rightarrow> int \<Rightarrow> int" where
  "getInt src key defaultValue =
     (case int_value src key of Some v \<Rightarrow> v | None \<Rightarrow> defaultValue)"

text \<open>\<open>std::string::find_last_of(ch)\<close>: the last position of \<open>ch\<close>, \<open>npos\<close> as \<open>None\<close>.\<close>

fun find_last_of :: "char \<Rightarrow> string \<Rightarrow> nat option" where
  "find_last_of ch [] = None"
| "find_last_of ch (x # xs) =
     (case find_last_of ch xs of
        Some i \<Rightarrow> Some (Suc i)
      | None \<Rightarrow> if x = ch then Some 0 else None)"

definition tolower :: "char \<Rightarrow> char" where
  "tolower ch =
     (let n = (of_char ch :: nat) in if 65 \<le> n \<and> n \<le> 90 then char_of (n + 32) else ch)"

definition createConfigManager :: "build_flags \<Rightarrow> string \<Rightarrow> exception + backend" where
  "createConfigManager b filename =
     (let fallback =
            (if USE_SIMPLE_INI b then Inr IniConfigManager
             else Inl (Runtime_error_pointer ''Not implemented''))
      in case find_last_of CHR ''.'' filename of
           None \<Rightarrow> fallback
         | Some dotPos \<Rightarrow>
             let extension = map tolower (drop (dotPos + 1) filename)
             in if ''ini'' = extension then
                  (if USE_SIMPLE_INI b then Inr IniConfigManager
                   else Inl (Runtime_error_pointer ''INI support not compiled or not found!''))
                else if ''yaml'' = extension \<or> ''yml'' = extension then
                  (if USE_YAML_CPP b then Inr YamlConfigManager
                   else Inl (Runtime_error_pointer ''YAML support not compiled or not found!''))
                else fallback)"

section \<open>ConnectionPool.h: the members of connection\_pool\<close>

text \<open>
  The members keep their names without the leading underscore; \<open>_shutdown\<close> is
  \<open>shutdown_flag\<close>, since \<open>shutdown\<close> is the member function. \<open>cv_notified\<close> is a ghost
  counter of the calls of \<open>cv.notify_all()\<close>. The queue of \<open>std::unique_ptr<connection>\<close> is a
  list, front first.
\<close>

record connection_pool =
  ip :: string
  port :: "16 word"
  username :: string
  password :: string
  dbname :: string
  initSize :: int
  maxSize :: int
  maxIdleTime :: int
  connectionTimeout :: int
  connectionQue :: "connection list"
  connectionCnt :: int
  shutdown_flag :: bool
  cv_notified :: nat

text \<open>
  \<open>PooledConnection = std::unique_ptr<connection, std::function<void(connection*)>>\<close>: the
  pointer it owns, null as \<open>None\<close>. Its deleter is always the lambda of \<open>getconnection\<close>.
\<close>

record PooledConnection =
  ptr :: "connection option"

section \<open>ConnectionPool.cpp\<close>

text \<open>
  \<open>connection_pool::loadConfigFile\<close>. The exception of \<open>createConfigManager\<close> is a pointer,
  so the handler \<open>catch (const std::exception& e)\<close> does not match it and it leaves the
  function. Nothing else in the \<open>try\<close> block throws (the YAML backend catches its own
  exceptions), so the key=value parser of the handler is never entered and is not part of
  the model.
\<close>

definition loadConfigFile ::
  "build_flags \<Rightarrow> (string \<Rightarrow> config_source) \<Rightarrow> string \<Rightarrow> connection_pool
     \<Rightarrow> exception + (bool \<times> connection_pool)" where
  "loadConfigFile b files filename p =
     (let configFile = (if filename = [] then ''db_config.ini'' else filename)
      in case createConfigManager b configFile of
           Inl ex \<Rightarrow> Inl ex
         | Inr configManager \<Rightarrow>
             let src = files configFile
             in if \<not> loads src then Inr (False, p)
                else Inr (True,
                  p\<lparr>ip := getString src ''ip'' ''localhost'',
                    port := of_int (getInt src ''port'' 3306),
                    username := getString src ''username'' ''root'',
                    password := getString src ''password'' '''',
                    dbname := getString src ''dbname'' ''test'',
                    initSize := getInt src ''initSize'' 5,
                    maxSize := getInt src ''maxSize'' 10,
                    maxIdleTime := getInt src ''maxIdleTime'' 60,
                    connectionTimeout := getInt src ''connectionTimeOut'' 100\<rparr>))"

text \<open>
  The four statements the constructor and the producer share: make a connection, connect it
  (the result of \<open>connect\<close> is not looked at), refresh its alive time, push it and count it.
\<close>

definition push_new :: "env \<Rightarrow> connection_pool \<Rightarrow> connection_pool" where
  "push_new e p =
     (let p0 = new_connection e;
          p1 = snd (connect e (ip p) (port p) (username p) (password p) (dbname p) p0);
          p2 = refreshsAliveTime e p1
      in p\<lparr>connectionQue := connectionQue p @ [p2], connectionCnt := connectionCnt p + 1\<rparr>)"

text \<open>
  \<open>connection_pool::connection_pool()\<close>. \<open>raw\<close> is the storage the object is built in: the
  members the constructor does not initialise keep its values. The result is the exception
  that leaves the constructor, or the object with the background threads it started (both
  detached). \<open>envs i\<close> is the environment of iteration \<open>i\<close> of the loop.
\<close>

datatype thread = Produce | Scanner

definition connection_pool_ctor ::
  "build_flags \<Rightarrow> (string \<Rightarrow> config_source) \<Rightarrow> (nat \<Rightarrow> env) \<Rightarrow> connection_pool
     \<Rightarrow> exception + (connection_pool \<times> thread list)" where
  "connection_pool_ctor b files envs raw =
     (case loadConfigFile b files [] (raw\<lparr>connectionQue := [], connectionCnt := 0\<rparr>) of
        Inl ex \<Rightarrow> Inl ex
      | Inr (loaded, p) \<Rightarrow>
          if \<not> loaded then Inr (p, [])
          else Inr (fold (\<lambda>i. push_new (envs i)) [0..<nat (initSize p)] p, [Produce, Scanner]))"

text \<open>
  \<open>connection_pool::getconnect_pool()\<close>, on its first call: the function-local static is
  initialised with \<open>new connection_pool()\<close>, and an exception of the constructor leaves the
  function.
\<close>

definition getconnect_pool ::
  "build_flags \<Rightarrow> (string \<Rightarrow> config_source) \<Rightarrow> (nat \<Rightarrow> env) \<Rightarrow> connection_pool
     \<Rightarrow> exception + connection_pool" where
  "getconnect_pool b files envs raw =
     (case connection_pool_ctor b files envs raw of
        Inl ex \<Rightarrow> Inl ex
      | Inr (p, threads) \<Rightarrow> Inr p)"

text \<open>
  One iteration of the loop of \<open>produceConnectionTask\<close>, under the mutex: \<open>None\<close> while the
  thread is blocked in \<open>cv.wait\<close> (the queue is not empty), otherwise the pool at the end of
  the iteration.
\<close>

definition produce_iteration :: "env \<Rightarrow> connection_pool \<Rightarrow> connection_pool option" where
  "produce_iteration e p =
     (if connectionQue p \<noteq> [] then None
      else
        let p' = (if connectionCnt p < maxSize p then push_new e p else p)
        in Some (p'\<lparr>cv_notified := cv_notified p' + 1\<rparr>))"

text \<open>
  \<open>produceConnectionTask\<close> is \<open>for(;;)\<close> around that iteration, with no \<open>break\<close> and no
  \<open>return\<close>. With fuel for the iterations, \<open>Some\<close> would be the pool at the moment the
  function returns; no equation produces it.
\<close>

fun produceConnectionTask :: "nat \<Rightarrow> (nat \<Rightarrow> env) \<Rightarrow> connection_pool \<Rightarrow> connection_pool option" where
  "produceConnectionTask 0 envs p = None"
| "produceConnectionTask (Suc fuel) envs p =
     (case produce_iteration (envs fuel) p of
        None \<Rightarrow> None
      | Some p' \<Rightarrow> produceConnectionTask fuel envs p')"

text \<open>
  \<open>connection_pool::getconnection\<close>, cut at the call of \<open>cv.wait_for\<close>, where the mutex is
  released and other threads run. \<open>getconnection\<close> is the function from the head of the
  \<open>while\<close> loop, with the mutex held; \<open>getconnection_wake\<close> is the function from the return
  of \<open>cv.wait_for\<close> with the given status. Each result carries the pool as the call leaves
  it. The \<open>catch\<close> block around \<open>reconnect\<close> is not entered, since \<open>reconnect\<close> does not
  throw.
\<close>

datatype cv_status = no_timeout | timeout

datatype acquire =
    Returns PooledConnection connection_pool
  | Throws exception connection_pool
  | Blocks duration connection_pool

definition getconnection :: "env \<Rightarrow> connection_pool \<Rightarrow> acquire" where
  "getconnection e p =
     (case connectionQue p of
        [] \<Rightarrow> Blocks (Microseconds (connectionTimeout p)) p
      | front # rest \<Rightarrow>
          let c = (if \<not> isValid 30 front
                   then refreshsAliveTime e
                          (snd (reconnect e (ip p) (port p) (username p) (password p) (dbname p) front))
                   else front)
          in Returns \<lparr>ptr = Some c\<rparr> (p\<lparr>connectionQue := rest, cv_notified := cv_notified p + 1\<rparr>))"

definition getconnection_wake :: "env \<Rightarrow> cv_status \<Rightarrow> connection_pool \<Rightarrow> acquire" where
  "getconnection_wake e st p =
     (if st = timeout \<and> connectionQue p = []
      then Throws (Runtime_error ''No available connections!'') p
      else getconnection e p)"

text \<open>
  The deleter of a \<open>PooledConnection\<close>. Its first argument is what \<open>poolWeakPtr.lock()\<close>
  finds: the pool, or \<open>None\<close> once the pool is gone. The result is the pool afterwards
  and the connections on which \<open>delete\<close> has run (\<open>delete\<close> of a null pointer does
  nothing).
\<close>

definition deleter ::
  "env \<Rightarrow> connection_pool option \<Rightarrow> connection option
     \<Rightarrow> connection_pool option \<times> connection list" where
  "deleter e pool p =
     (case pool of
        None \<Rightarrow> (None, (case p of None \<Rightarrow> [] | Some c \<Rightarrow> [c]))
      | Some poolPtr \<Rightarrow>
          let (q, deleted) =
                (case p of
                   None \<Rightarrow> (poolPtr\<lparr>connectionCnt := connectionCnt poolPtr - 1\<rparr>, [])
                 | Some c \<Rightarrow>
                     if \<not> isValid 30 c
                     then (poolPtr\<lparr>connectionCnt := connectionCnt poolPtr - 1\<rparr>, [c])
                     else (poolPtr\<lparr>connectionQue :=
                             connectionQue poolPtr @ [refreshsAliveTime e c]\<rparr>, []))
          in (Some (q\<lparr>cv_notified := cv_notified q + 1\<rparr>), deleted))"

text \<open>
  The two ways a \<open>std::unique_ptr\<close> gives up its pointer, as the C++ standard defines
  them. The destructor calls the deleter when the pointer is not null. \<open>release()\<close> returns
  the pointer to the caller and leaves the handle null: it calls neither the deleter nor
  \<open>delete\<close>, so the pool is passed through and no connection is deleted.
\<close>

definition destroy_handle ::
  "env \<Rightarrow> connection_pool option \<Rightarrow> PooledConnection
     \<Rightarrow> connection_pool option \<times> connection list" where
  "destroy_handle e pool h =
     (case ptr h of None \<Rightarrow> (pool, []) | Some c \<Rightarrow> deleter e pool (Some c))"

definition release ::
  "connection_pool option \<Rightarrow> PooledConnection
     \<Rightarrow> connection option \<times> PooledConnection \<times> connection_pool option \<times> connection list" where
  "release pool h = (ptr h, h\<lparr>ptr := None\<rparr>, pool, [])"

text \<open>
  One pass of the loop of \<open>scanRunningConnectionTask\<close> after the sleep, under the mutex.
  \<open>scan\<close> is the first \<open>while\<close> loop: the queue still to visit, the counter and
  \<open>validConns\<close>. \<open>envs (addr c)\<close> is the environment while connection \<open>c\<close> is visited.
  The local \<open>invalidCount\<close> is written and never read, and is left out. The second loop
  moves \<open>validConns\<close> into the emptied queue. \<open>scanner_sleep\<close> is the argument of
  \<open>this_thread::sleep_for\<close> at the head of each pass.
\<close>

definition scanner_sleep :: "connection_pool \<Rightarrow> duration" where
  "scanner_sleep p = Seconds (maxIdleTime p)"

text \<open>
  \<open>_maxIdleTime * 1000\<close> is a product of two 32-bit \<open>int\<close>s: the result is the product
  wrapped to 32 bits and read as a signed value (overflow is undefined in C++; this is
  what the two's complement multiplication of the compiled code gives). The comparison
  with the \<open>clock_t\<close> of \<open>getAliveTime\<close> then widens it.
\<close>

definition mul_int32 :: "int \<Rightarrow> int \<Rightarrow> int" where
  "mul_int32 a b = sint (word_of_int a * word_of_int b :: 32 word)"

fun scan ::
  "(nat \<Rightarrow> env) \<Rightarrow> connection_pool \<Rightarrow> connection list \<Rightarrow> int \<Rightarrow> connection list
     \<Rightarrow> int \<times> connection list" where
  "scan envs p [] cnt validConns = (cnt, validConns)"
| "scan envs p (front # rest) cnt validConns =
     (let e = envs (addr front);
          (ok, c) = (if \<not> isValid 30 front
                     then reconnect e (ip p) (port p) (username p) (password p) (dbname p) front
                     else (True, front))
      in if \<not> ok then scan envs p rest (cnt - 1) validConns
         else if getAliveTime e c \<ge> mul_int32 (maxIdleTime p) 1000 \<and> cnt > initSize p
              then scan envs p rest (cnt - 1) validConns
         else scan envs p rest cnt (validConns @ [c]))"

definition scan_pass :: "(nat \<Rightarrow> env) \<Rightarrow> connection_pool \<Rightarrow> connection_pool" where
  "scan_pass envs p =
     (let (cnt, validConns) = scan envs p (connectionQue p) (connectionCnt p) [];
          p' = p\<lparr>connectionQue := validConns, connectionCnt := cnt\<rparr>
      in if cnt < initSize p then p'\<lparr>cv_notified := cv_notified p' + 1\<rparr> else p')"

text \<open>\<open>connection_pool::shutdown\<close>: store the flag, pop the queue until it is empty.\<close>

definition shutdown :: "connection_pool \<Rightarrow> connection_pool" where
  "shutdown p = p\<lparr>shutdown_flag := True, connectionQue := []\<rparr>"

section \<open>The pool and its borrowers as a transition system\<close>

text \<open>
  Every statement that reads or writes the queue or the counter runs with \<open>_queueMutex\<close>
  held, so the states between critical sections are the states reached by running the
  critical sections one after another, in any order: an iteration of the producer, a
  \<open>getconnection\<close> that returns a handle, the destruction of a live handle (its deleter, with
  the pool alive), and a pass of the scanner. Between them the server may drop the link of
  any session. A \<open>getconnection\<close> that blocks or throws leaves the pool as it is and needs
  no rule. \<open>handles\<close> are the live handles that borrowers hold, in any number. A borrower
  may also call \<open>release()\<close> on a live handle: the handle is then null and no longer live,
  and the session goes to \<open>detached\<close>, the sessions whose raw pointer a borrower holds
  outside any handle. The system is the pool while it is alive: \<open>shutdown\<close> is private and
  runs in the destructor only, so it is not a step.
\<close>

record system =
  pool :: connection_pool
  handles :: "PooledConnection list"
  detached :: "connection list"

definition lose_link :: "connection \<Rightarrow> connection" where
  "lose_link c = c\<lparr>conn := map_option (\<lambda>h. Driver_handle False) (conn c)\<rparr>"

inductive reachable :: "connection_pool \<Rightarrow> system \<Rightarrow> bool" for p0 where
  start: "reachable p0 \<lparr>pool = p0, handles = [], detached = []\<rparr>"
| produce: "reachable p0 s \<Longrightarrow> produce_iteration e (pool s) = Some p'
     \<Longrightarrow> reachable p0 (s\<lparr>pool := p'\<rparr>)"
| acquire: "reachable p0 s \<Longrightarrow> getconnection e (pool s) = Returns h p'
     \<Longrightarrow> reachable p0 (s\<lparr>pool := p', handles := h # handles s\<rparr>)"
| acquire_after_wait: "reachable p0 s \<Longrightarrow> getconnection_wake e st (pool s) = Returns h p'
     \<Longrightarrow> reachable p0 (s\<lparr>pool := p', handles := h # handles s\<rparr>)"
| give_back: "reachable p0 s \<Longrightarrow> handles s = hs @ h # hs'
     \<Longrightarrow> destroy_handle e (Some (pool s)) h = (Some p', deleted)
     \<Longrightarrow> reachable p0 (s\<lparr>pool := p', handles := hs @ hs'\<rparr>)"
| let_go: "reachable p0 s \<Longrightarrow> handles s = hs @ h # hs'
     \<Longrightarrow> release (Some (pool s)) h = (Some c, h', Some p', deleted)
     \<Longrightarrow> reachable p0 (s\<lparr>pool := p', handles := hs @ hs', detached := c # detached s\<rparr>)"
| scavenge: "reachable p0 s \<Longrightarrow> reachable p0 (s\<lparr>pool := scan_pass envs (pool s)\<rparr>)"
| link_lost_idle: "reachable p0 s \<Longrightarrow> connectionQue (pool s) = q @ c # q'
     \<Longrightarrow> reachable p0 (s\<lparr>pool := (pool s)\<lparr>connectionQue := q @ lose_link c # q'\<rparr>\<rparr>)"
| link_lost_held: "reachable p0 s \<Longrightarrow> handles s = hs @ h # hs' \<Longrightarrow> ptr h = Some c
     \<Longrightarrow> reachable p0 (s\<lparr>handles := hs @ h\<lparr>ptr := Some (lose_link c)\<rparr> # hs'\<rparr>)"

text \<open>The bookkeeping that every step keeps: each counted session is in the queue, in
  a live handle or detached, and every live handle holds one.\<close>

definition accounted :: "system \<Rightarrow> bool" where
  "accounted s =
     (int (length (connectionQue (pool s))) + int (length (handles s))
        + int (length (detached s)) = connectionCnt (pool s)
      \<and> connectionCnt (pool s) \<le> maxSize (pool s)
      \<and> list_all (\<lambda>h. ptr h \<noteq> None) (handles s))"


text \<open>Clock ticks in whole seconds, for a given value of the macro \<open>CLOCKS_PER_SEC\<close> of
  \<open><ctime>\<close> (1000000 on POSIX systems).\<close>

definition seconds_of_ticks :: "int \<Rightarrow> clock_t \<Rightarrow> int" where
  "seconds_of_ticks CLOCKS_PER_SEC t = t div CLOCKS_PER_SEC"

section \<open>Concrete builds, files, environments and pools\<close>

definition ini_build :: build_flags where
  "ini_build = \<lparr>USE_SIMPLE_INI = True, USE_YAML_CPP = False\<rparr>"

definition env_ok :: env where
  "env_ok = \<lparr>clock = 0, mysql_init_ok = True, mysql_real_connect_ok = True, address = 0,
     indeterminate = 0\<rparr>"

definition env_down :: env where
  "env_down = \<lparr>clock = 0, mysql_init_ok = True, mysql_real_connect_ok = False, address = 0,
     indeterminate = 0\<rparr>"

definition envs_ok :: "nat \<Rightarrow> env" where
  "envs_ok i = env_ok\<lparr>address := i\<rparr>"

definition envs_down :: "nat \<Rightarrow> env" where
  "envs_down i = env_down\<lparr>address := i\<rparr>"

definition envs_at :: "clock_t \<Rightarrow> nat \<Rightarrow> env" where
  "envs_at t i = env_ok\<lparr>clock := t\<rparr>"

definition raw_storage :: connection_pool where
  "raw_storage =
     \<lparr>ip = [], port = 0, username = [], password = [], dbname = [], initSize = 0, maxSize = 0,
      maxIdleTime = 0, connectionTimeout = 0, connectionQue = [], connectionCnt = 0,
      shutdown_flag = False, cv_notified = 0\<rparr>"

definition files_default :: "string \<Rightarrow> config_source" where
  "files_default f = \<lparr>loads = True, string_value = (\<lambda>k. None), int_value = (\<lambda>k. None)\<rparr>"

definition files_sized :: "int \<Rightarrow> int \<Rightarrow> string \<Rightarrow> config_source" where
  "files_sized init mx f =
     \<lparr>loads = True, string_value = (\<lambda>k. None),
      int_value = (\<lambda>k. if k = ''initSize'' then Some init
                         else if k = ''maxSize'' then Some mx else None)\<rparr>"

definition files_unreadable :: "string \<Rightarrow> config_source" where
  "files_unreadable f = \<lparr>loads = False, string_value = (\<lambda>k. None), int_value = (\<lambda>k. None)\<rparr>"

definition configured :: "int \<Rightarrow> int \<Rightarrow> connection_pool" where
  "configured init mx =
     \<lparr>ip = ''localhost'', port = 3306, username = ''root'', password = [], dbname = ''test'',
      initSize = init, maxSize = mx, maxIdleTime = 60, connectionTimeout = 100,
      connectionQue = [], connectionCnt = 0, shutdown_flag = False, cv_notified = 0\<rparr>"

definition session :: "nat \<Rightarrow> bool \<Rightarrow> connection" where
  "session a up = \<lparr>addr = a, conn = Some (Driver_handle up), alivetime = 0\<rparr>"

definition stocked :: "int \<Rightarrow> int \<Rightarrow> connection list \<Rightarrow> connection_pool" where
  "stocked init mx q = (configured init mx)\<lparr>connectionQue := q, connectionCnt := int (length q)\<rparr>"

section \<open>The liveness probe\<close>

text \<open>
  Claim C10. For every connection and every two values of the timeout argument,
  \<open>connection::isValid\<close> returns the same result: the parameter is never read.
\<close>

theorem isValid_timeout_irrelevant: "isValid t1 c = isValid t2 c"
  by (simp add: isValid_def)

section \<open>Counting sessions\<close>

lemma push_new_fields:
  "length (connectionQue (push_new e p)) = Suc (length (connectionQue p))"
  "connectionCnt (push_new e p) = connectionCnt p + 1"
  "maxSize (push_new e p) = maxSize p"
  "initSize (push_new e p) = initSize p"
  by (simp_all add: push_new_def Let_def)

lemma fold_push_new:
  "length (connectionQue (fold (\<lambda>i. push_new (envs i)) is p)) = length (connectionQue p) + length is
   \<and> connectionCnt (fold (\<lambda>i. push_new (envs i)) is p) = connectionCnt p + int (length is)
   \<and> maxSize (fold (\<lambda>i. push_new (envs i)) is p) = maxSize p
   \<and> initSize (fold (\<lambda>i. push_new (envs i)) is p) = initSize p"
  by (induction "is" arbitrary: p) (simp_all add: push_new_fields)

lemma loadConfigFile_keeps:
  "loadConfigFile b files f p = Inr (ld, p') \<Longrightarrow>
     connectionQue p' = connectionQue p \<and> connectionCnt p' = connectionCnt p"
  by (auto simp: loadConfigFile_def Let_def split: sum.splits if_splits)

lemma ctor_counts:
  assumes "connection_pool_ctor b files envs raw = Inr (p0, ths)"
  shows "int (length (connectionQue p0)) = connectionCnt p0"
    and "ths = [Produce, Scanner] \<Longrightarrow> connectionCnt p0 = max 0 (initSize p0)"
    and "ths \<noteq> [Produce, Scanner] \<Longrightarrow> ths = [] \<and> connectionCnt p0 = 0"
  using assms
  by (auto simp: connection_pool_ctor_def fold_push_new split: sum.splits prod.splits if_splits
      dest!: loadConfigFile_keeps)

lemma produce_iteration_Some:
  assumes "produce_iteration e p = Some p'"
  shows "connectionQue p = []"
    and "maxSize p' = maxSize p"
    and "connectionCnt p < maxSize p \<Longrightarrow>
           connectionCnt p' = connectionCnt p + 1 \<and> length (connectionQue p') = 1"
    and "\<not> connectionCnt p < maxSize p \<Longrightarrow>
           connectionCnt p' = connectionCnt p \<and> connectionQue p' = []"
  using assms
  by (auto simp: produce_iteration_def Let_def push_new_fields split: if_splits)

lemma getconnection_Returns:
  assumes "getconnection e p = Returns h p'"
  shows "\<exists>front. connectionQue p = front # connectionQue p'"
    and "connectionCnt p' = connectionCnt p"
    and "maxSize p' = maxSize p"
    and "ptr h \<noteq> None"
  using assms
  by (auto simp: getconnection_def Let_def split: list.splits)

lemma getconnection_wake_Returns:
  "getconnection_wake e st p = Returns h p' \<Longrightarrow> getconnection e p = Returns h p'"
  by (simp add: getconnection_wake_def split: if_splits)

lemma deleter_Some:
  assumes "deleter e (Some p) (Some c) = (Some p', deleted)"
  shows "maxSize p' = maxSize p"
    and "(connectionCnt p' = connectionCnt p - 1 \<and> connectionQue p' = connectionQue p)
         \<or> (connectionCnt p' = connectionCnt p
             \<and> length (connectionQue p') = Suc (length (connectionQue p)))"
  using assms
  by (auto simp: deleter_def Let_def split: if_splits)

lemma scan_counts:
  "scan envs p q cnt v = (cnt', v') \<Longrightarrow>
     cnt' - int (length v') = cnt - int (length q) - int (length v) \<and> cnt' \<le> cnt"
proof (induction q arbitrary: cnt v)
  case Nil
  then show ?case by simp
next
  case (Cons front rest)
  then show ?case
    by (fastforce simp: Let_def split: prod.splits if_splits)
qed

lemma scan_pass_fields:
  "maxSize (scan_pass envs p) = maxSize p"
  "connectionCnt (scan_pass envs p) - int (length (connectionQue (scan_pass envs p)))
     = connectionCnt p - int (length (connectionQue p))"
  "connectionCnt (scan_pass envs p) \<le> connectionCnt p"
  using scan_counts [of envs p "connectionQue p" "connectionCnt p" "[]"]
  by (auto simp: scan_pass_def Let_def split: prod.splits)

lemma accounted_reachable:
  assumes "accounted \<lparr>pool = p0, handles = [], detached = []\<rparr>" and "reachable p0 s"
  shows "accounted s"
  using assms(2)
proof (induction rule: reachable.induct)
  case start
  show ?case by (rule assms(1))
next
  case (produce s e p')
  then show ?case
    using produce_iteration_Some [of e "pool s" p']
    by (cases "connectionCnt (pool s) < maxSize (pool s)") (auto simp: accounted_def)
next
  case (acquire s e h p')
  then show ?case
    using getconnection_Returns [of e "pool s" h p']
    by (auto simp: accounted_def)
next
  case (acquire_after_wait s e st h p')
  then show ?case
    using getconnection_Returns [of e "pool s" h p'] getconnection_wake_Returns [of e st "pool s" h p']
    by (auto simp: accounted_def)
next
  case (give_back s hs h hs' e p' deleted)
  then obtain c where c: "ptr h = Some c"
    by (auto simp: accounted_def)
  with give_back show ?case
    using deleter_Some [of e "pool s" c p' deleted]
    by (auto simp: accounted_def destroy_handle_def)
next
  case (let_go s hs h hs' c h' p' deleted)
  then show ?case
    by (auto simp: accounted_def release_def)
next
  case (scavenge s envs)
  then show ?case
    using scan_pass_fields [of envs "pool s"]
    by (auto simp: accounted_def)
next
  case (link_lost_idle s q c q')
  then show ?case by (auto simp: accounted_def)
next
  case (link_lost_held s hs h hs' c)
  then show ?case by (auto simp: accounted_def)
qed

lemma createConfigManager_ini: "createConfigManager ini_build ''db_config.ini'' = Inr IniConfigManager"
  by (simp add: createConfigManager_def ini_build_def tolower_def)

lemma loadConfigFile_sized:
  "loadConfigFile ini_build (files_sized init mx) [] raw_storage = Inr (True, configured init mx)"
  by (simp add: loadConfigFile_def createConfigManager_ini files_sized_def getInt_def getString_def
      raw_storage_def configured_def)

lemma loadConfigFile_default:
  "loadConfigFile ini_build files_default [] raw_storage = Inr (True, configured 5 10)"
  by (simp add: loadConfigFile_def createConfigManager_ini files_default_def getInt_def getString_def
      raw_storage_def configured_def)

lemma raw_storage_reset: "raw_storage\<lparr>connectionQue := [], connectionCnt := 0\<rparr> = raw_storage"
  by (simp add: raw_storage_def)

lemmas fresh_session_defs =
  push_new_def new_connection_def connect_def refreshsAliveTime_def configured_def stocked_def
  session_def envs_ok_def env_ok_def envs_down_def env_down_def

lemma ctor_sized_1_2:
  "connection_pool_ctor ini_build (files_sized 1 2) envs_ok raw_storage
     = Inr (stocked 1 2 [session 0 True], [Produce, Scanner])"
  by (simp add: connection_pool_ctor_def raw_storage_reset loadConfigFile_sized fresh_session_defs)

lemma ctor_sized_2_1:
  "connection_pool_ctor ini_build (files_sized 2 1) envs_ok raw_storage
     = Inr (stocked 2 1 [session 0 True, session 1 True], [Produce, Scanner])"
  by (simp add: connection_pool_ctor_def raw_storage_reset loadConfigFile_sized fresh_session_defs
      upt_rec)

section \<open>The accounting invariant\<close>

text \<open>
  Two states that the examples below share: from the pool built with \<open>initSize = 1\<close> and
  \<open>maxSize = 2\<close>, a borrower takes the one session, and then calls \<open>release()\<close> on its
  handle.
\<close>

lemma reachable_lent:
  "reachable (stocked 1 2 [session 0 True])
     \<lparr>pool = (stocked 1 2 [])\<lparr>connectionCnt := 1, cv_notified := 1\<rparr>,
      handles = [\<lparr>ptr = Some (session 0 True)\<rparr>], detached = []\<rparr>"
proof -
  let ?p0 = "stocked 1 2 [session 0 True]"
  have "getconnection env_ok (pool \<lparr>pool = ?p0, handles = [], detached = []\<rparr>)
          = Returns \<lparr>ptr = Some (session 0 True)\<rparr>
              ((stocked 1 2 [])\<lparr>connectionCnt := 1, cv_notified := 1\<rparr>)"
    by (simp add: getconnection_def stocked_def configured_def session_def isValid_def
        mysql_ping_def)
  from reachable.acquire [OF reachable.start this]
  show ?thesis by simp
qed

lemma reachable_released:
  "reachable (stocked 1 2 [session 0 True])
     \<lparr>pool = (stocked 1 2 [])\<lparr>connectionCnt := 1, cv_notified := 1\<rparr>,
      handles = [], detached = [session 0 True]\<rparr>"
proof -
  let ?p1 = "(stocked 1 2 [])\<lparr>connectionCnt := 1, cv_notified := 1\<rparr>"
  let ?s = "\<lparr>pool = ?p1, handles = [\<lparr>ptr = Some (session 0 True)\<rparr>], detached = []\<rparr>"
  have held: "handles ?s = [] @ \<lparr>ptr = Some (session 0 True)\<rparr> # []"
    by simp
  have "release (Some (pool ?s)) \<lparr>ptr = Some (session 0 True)\<rparr>
          = (Some (session 0 True), \<lparr>ptr = None\<rparr>, Some ?p1, [])"
    by (simp add: release_def)
  from reachable.let_go [OF reachable_lent held this]
  show ?thesis by simp
qed

text \<open>
  Claim C1, as the code has it. Take a pool whose construction loaded its configuration and
  whose configuration has \<open>initSize \<le> maxSize\<close> and \<open>0 \<le> maxSize\<close>. In every state reached
  from it while it is alive, by iterations of the producer, calls of \<open>getconnection\<close>,
  destructions of live handles, calls of \<open>release()\<close> on live handles and passes of the
  scanner, in any order and with any number of handles lent: the sessions in the queue,
  the sessions in live handles and the sessions detached by \<open>release()\<close> together are the
  counter; so queue and live handles are at most the counter, and are the counter when no
  handle has been released. The counter is between 0 and \<open>maxSize\<close>, and from such a state
  an iteration of the producer leaves it at most \<open>maxSize\<close>: the producer creates a session
  only after it has seen the counter below \<open>maxSize\<close>, with the mutex held.
\<close>

theorem pool_accounting:
  assumes "connection_pool_ctor b files envs raw = Inr (p0, [Produce, Scanner])"
    and "initSize p0 \<le> maxSize p0" and "0 \<le> maxSize p0"
    and "reachable p0 s"
  shows "int (length (connectionQue (pool s))) + int (length (handles s))
           + int (length (detached s)) = connectionCnt (pool s)
    \<and> int (length (connectionQue (pool s))) + int (length (handles s)) \<le> connectionCnt (pool s)
    \<and> (detached s = [] \<longrightarrow>
         int (length (connectionQue (pool s))) + int (length (handles s)) = connectionCnt (pool s))
    \<and> 0 \<le> connectionCnt (pool s)
    \<and> connectionCnt (pool s) \<le> maxSize (pool s)
    \<and> (\<forall>e p'. produce_iteration e (pool s) = Some p' \<longrightarrow> connectionCnt p' \<le> maxSize p')"
proof -
  have "accounted \<lparr>pool = p0, handles = [], detached = []\<rparr>"
    using ctor_counts(1,2) [OF assms(1)] assms(2,3) by (simp add: accounted_def)
  then have acc: "accounted s"
    using assms(4) by (rule accounted_reachable)
  have "connectionCnt p' \<le> maxSize p'" if "produce_iteration e (pool s) = Some p'" for e p'
    using produce_iteration_Some [OF that] acc
    by (cases "connectionCnt (pool s) < maxSize (pool s)") (auto simp: accounted_def)
  with acc show ?thesis
    by (auto simp: accounted_def)
qed

theorem pool_accounting_witness:
  "connection_pool_ctor ini_build (files_sized 1 2) envs_ok raw_storage
     = Inr (stocked 1 2 [session 0 True], [Produce, Scanner])
   \<and> initSize (stocked 1 2 [session 0 True]) \<le> maxSize (stocked 1 2 [session 0 True])
   \<and> 0 \<le> maxSize (stocked 1 2 [session 0 True])
   \<and> reachable (stocked 1 2 [session 0 True])
        \<lparr>pool = (stocked 1 2 [])\<lparr>connectionCnt := 1, cv_notified := 1\<rparr>,
         handles = [], detached = [session 0 True]\<rparr>
   \<and> int (length (connectionQue ((stocked 1 2 [])\<lparr>connectionCnt := 1, cv_notified := 1\<rparr>)))
        + int (length ([] :: PooledConnection list)) + int (length [session 0 True])
       = connectionCnt ((stocked 1 2 [])\<lparr>connectionCnt := 1, cv_notified := 1\<rparr>)
   \<and> connectionCnt ((stocked 1 2 [])\<lparr>connectionCnt := 1, cv_notified := 1\<rparr>) \<le> 2"
proof -
  let ?p0 = "stocked 1 2 [session 0 True]"
  have built: "connection_pool_ctor ini_build (files_sized 1 2) envs_ok raw_storage
     = Inr (?p0, [Produce, Scanner])"
    by (rule ctor_sized_1_2)
  have sizes: "initSize ?p0 \<le> maxSize ?p0" "0 \<le> maxSize ?p0"
    by (simp_all add: stocked_def configured_def)
  from pool_accounting [OF built sizes reachable_released] built sizes reachable_released
  show ?thesis by (simp add: stocked_def configured_def)
qed

text \<open>
  Claim C1 as stated fails in two ways. Where the configuration has \<open>initSize\<close> above
  \<open>maxSize\<close>, the constructor opens \<open>initSize\<close> sessions without looking at \<open>maxSize\<close>: with
  \<open>initSize = 2\<close> and \<open>maxSize = 1\<close> the pool starts with two sessions counted. And after
  \<open>release()\<close> on a live handle the counter still counts the session: the pool built with
  \<open>initSize = 1\<close> and \<open>maxSize = 2\<close>, its session borrowed and the handle released,
  has an empty queue, no live handle and the counter 1.
\<close>

theorem pool_exceeds_max_size:
  "connection_pool_ctor ini_build (files_sized 2 1) envs_ok raw_storage
     = Inr (stocked 2 1 [session 0 True, session 1 True], [Produce, Scanner])
   \<and> reachable (stocked 2 1 [session 0 True, session 1 True])
        \<lparr>pool = stocked 2 1 [session 0 True, session 1 True], handles = [], detached = []\<rparr>
   \<and> \<not> connectionCnt (stocked 2 1 [session 0 True, session 1 True])
          \<le> maxSize (stocked 2 1 [session 0 True, session 1 True])
   \<and> connection_pool_ctor ini_build (files_sized 1 2) envs_ok raw_storage
       = Inr (stocked 1 2 [session 0 True], [Produce, Scanner])
   \<and> reachable (stocked 1 2 [session 0 True])
        \<lparr>pool = (stocked 1 2 [])\<lparr>connectionCnt := 1, cv_notified := 1\<rparr>,
         handles = [], detached = [session 0 True]\<rparr>
   \<and> int (length (connectionQue ((stocked 1 2 [])\<lparr>connectionCnt := 1, cv_notified := 1\<rparr>)))
        + int (length ([] :: PooledConnection list))
       \<noteq> connectionCnt ((stocked 1 2 [])\<lparr>connectionCnt := 1, cv_notified := 1\<rparr>)"
proof -
  have over: "\<not> connectionCnt (stocked 2 1 [session 0 True, session 1 True])
                 \<le> maxSize (stocked 2 1 [session 0 True, session 1 True])"
    by (simp add: stocked_def configured_def)
  have lost: "int (length (connectionQue ((stocked 1 2 [])\<lparr>connectionCnt := 1, cv_notified := 1\<rparr>)))
                + int (length ([] :: PooledConnection list))
              \<noteq> connectionCnt ((stocked 1 2 [])\<lparr>connectionCnt := 1, cv_notified := 1\<rparr>)"
    by (simp add: stocked_def configured_def)
  from over lost ctor_sized_2_1 ctor_sized_1_2 reachable_released
    reachable.start [of "stocked 2 1 [session 0 True, session 1 True]"]
  show ?thesis by blast
qed

section \<open>Borrowing\<close>

lemmas probe_defs = isValid_def mysql_ping_def reconnect_def

lemma ctor_sized_0_2:
  "connection_pool_ctor ini_build (files_sized 0 2) envs_ok raw_storage
     = Inr (stocked 0 2 [], [Produce, Scanner])"
  by (simp add: connection_pool_ctor_def raw_storage_reset loadConfigFile_sized fresh_session_defs)

text \<open>
  What \<open>getconnection\<close> does with an unhealthy front session, whatever \<open>reconnect\<close>
  returns: the session is touched and handed out, and the counter stays.
\<close>

lemma getconnection_unhealthy_front:
  assumes "connectionQue p = front # rest" and "\<not> isValid 30 front"
  shows "getconnection e p =
           Returns \<lparr>ptr = Some (refreshsAliveTime e
                       (snd (reconnect e (ip p) (port p) (username p) (password p) (dbname p) front)))\<rparr>
                   (p\<lparr>connectionQue := rest, cv_notified := cv_notified p + 1\<rparr>)"
  using assms by (simp add: getconnection_def)

lemma reconnect_result:
  "fst (reconnect e i po u pw d c) = (mysql_init_ok e \<and> mysql_real_connect_ok e)"
  "isValid t (refreshsAliveTime e' (snd (reconnect e i po u pw d c)))
     = (mysql_init_ok e \<and> mysql_real_connect_ok e)"
  by (simp_all add: probe_defs refreshsAliveTime_def)

text \<open>
  Claim C2 on the code. The idle queue holds one session whose link is down, and the server
  cannot be reached, so \<open>reconnect\<close> returns \<open>false\<close>. \<open>getconnection\<close> hands that session
  out in a handle, still failing \<open>isValid\<close>, and the counter is still 1.
\<close>

theorem getconnection_returns_unhealthy_session:
  "\<not> isValid 30 (session 0 False)
   \<and> \<not> fst (reconnect env_down ''localhost'' 3306 ''root'' [] ''test'' (session 0 False))
   \<and> getconnection env_down (stocked 1 2 [session 0 False])
       = Returns \<lparr>ptr = Some (session 0 False)\<rparr>
           ((stocked 1 2 [])\<lparr>connectionCnt := 1, cv_notified := 1\<rparr>)
   \<and> connectionCnt ((stocked 1 2 [])\<lparr>connectionCnt := 1, cv_notified := 1\<rparr>)
       = connectionCnt (stocked 1 2 [session 0 False])"
  by (simp add: getconnection_def probe_defs refreshsAliveTime_def stocked_def configured_def
      session_def env_down_def)

text \<open>
  Claim C3, as the code has it. On a pool whose idle queue is empty \<open>getconnection\<close> waits on
  the condition variable for \<open>connectionTimeout\<close> microseconds; when that wait times out with
  the queue still empty it throws \<open>runtime_error("No available connections!")\<close> and the pool
  is as it was; a wake-up without timeout with the queue still empty waits again. The
  member is the key \<open>connectionTimeOut\<close> of the configuration, 100 when the key is absent.
\<close>

theorem acquire_timeout_microseconds:
  assumes "connectionQue p = []"
  shows "getconnection e p = Blocks (Microseconds (connectionTimeout p)) p
    \<and> getconnection_wake e timeout p = Throws (Runtime_error ''No available connections!'') p
    \<and> getconnection_wake e no_timeout p = Blocks (Microseconds (connectionTimeout p)) p
    \<and> (loadConfigFile b files [] raw = Inr (True, q)
         \<and> int_value (files ''db_config.ini'') ''connectionTimeOut'' = None
        \<longrightarrow> connectionTimeout q = 100)"
  using assms
  by (auto simp: getconnection_def getconnection_wake_def loadConfigFile_def getInt_def Let_def
      split: sum.splits if_splits)

theorem acquire_timeout_microseconds_witness:
  "connectionQue (stocked 0 2 []) = []
   \<and> loadConfigFile ini_build (files_sized 0 2) [] raw_storage = Inr (True, configured 0 2)
   \<and> int_value (files_sized 0 2 ''db_config.ini'') ''connectionTimeOut'' = None
   \<and> connectionTimeout (configured 0 2) = 100
   \<and> getconnection env_ok (stocked 0 2 []) = Blocks (Microseconds 100) (stocked 0 2 [])
   \<and> getconnection_wake env_ok timeout (stocked 0 2 [])
       = Throws (Runtime_error ''No available connections!'') (stocked 0 2 [])"
proof -
  have empty: "connectionQue (stocked 0 2 []) = []"
    by (simp add: stocked_def)
  have absent: "int_value (files_sized 0 2 ''db_config.ini'') ''connectionTimeOut'' = None"
    by (simp add: files_sized_def)
  have t: "connectionTimeout (stocked 0 2 []) = 100"
    by (simp add: stocked_def configured_def)
  from acquire_timeout_microseconds [OF empty, of env_ok ini_build "files_sized 0 2" raw_storage
      "configured 0 2"] loadConfigFile_sized [of 0 2] absent empty t
  show ?thesis by simp
qed

text \<open>
  Claim C3 as stated fails on the unit. A pool built from a configuration without the key
  \<open>connectionTimeOut\<close> and with no session waits 100 microseconds, which is not 100
  milliseconds.
\<close>

theorem acquire_waits_microseconds_not_milliseconds:
  "connection_pool_ctor ini_build (files_sized 0 2) envs_ok raw_storage
     = Inr (stocked 0 2 [], [Produce, Scanner])
   \<and> getconnection env_ok (stocked 0 2 []) = Blocks (Microseconds 100) (stocked 0 2 [])
   \<and> in_microseconds (Microseconds 100) \<noteq> in_microseconds (Milliseconds 100)"
  by (simp add: ctor_sized_0_2) (simp add: getconnection_def stocked_def configured_def)



section \<open>Construction\<close>

lemma push_new_probe:
  "map (isValid t) (connectionQue (push_new e p))
     = map (isValid t) (connectionQue p) @ [mysql_init_ok e \<and> mysql_real_connect_ok e]"
  by (simp add: push_new_def new_connection_def connect_def refreshsAliveTime_def probe_defs
      Let_def)

lemma fold_push_new_probe:
  "map (isValid t) (connectionQue (fold (\<lambda>i. push_new (envs i)) is p))
     = map (isValid t) (connectionQue p)
       @ map (\<lambda>i. mysql_init_ok (envs i) \<and> mysql_real_connect_ok (envs i)) is"
  by (induction "is" arbitrary: p) (simp_all add: push_new_probe)

text \<open>
  Claim C5, as the code has it. When no backend for \<open>db_config.ini\<close> is compiled in, the
  exception of \<open>createConfigManager\<close> leaves the constructor. Otherwise the constructor
  returns a pool. If the file loads, the pool has \<open>max 0 initSize\<close> sessions in the queue and
  as many counted, each one valid exactly when its \<open>mysql_init\<close> and \<open>mysql_real_connect\<close>
  succeeded (a session that failed to open is enqueued and counted like the others), and
  both threads are started. If the file does not load, the constructor returns with an
  empty queue, the counter 0, the configuration members as the storage had them and no
  thread started.
\<close>

theorem construction_outcomes:
  "case createConfigManager b ''db_config.ini'' of
     Inl ex \<Rightarrow> connection_pool_ctor b files envs raw = Inl ex
   | Inr m \<Rightarrow>
       (\<exists>p. connection_pool_ctor b files envs raw
               = Inr (p, if loads (files ''db_config.ini'') then [Produce, Scanner] else [])
          \<and> int (length (connectionQue p)) = connectionCnt p
          \<and> (if loads (files ''db_config.ini'')
             then initSize p = getInt (files ''db_config.ini'') ''initSize'' 5
                \<and> connectionCnt p = max 0 (initSize p)
                \<and> map (isValid 30) (connectionQue p)
                    = map (\<lambda>i. mysql_init_ok (envs i) \<and> mysql_real_connect_ok (envs i))
                        [0..<nat (initSize p)]
             else p = raw\<lparr>connectionQue := [], connectionCnt := 0\<rparr>))"
proof (cases "createConfigManager b ''db_config.ini''")
  case (Inl ex)
  then show ?thesis
    by (simp add: connection_pool_ctor_def loadConfigFile_def)
next
  case (Inr m)
  show ?thesis
  proof (cases "loads (files ''db_config.ini'')")
    case True
    with Inr show ?thesis
      by (simp add: connection_pool_ctor_def loadConfigFile_def Let_def fold_push_new
          fold_push_new_probe)
  next
    case False
    with Inr show ?thesis
      by (simp add: connection_pool_ctor_def loadConfigFile_def Let_def)
  qed
qed

theorem construction_outcomes_witness:
  "createConfigManager ini_build ''db_config.ini'' = Inr IniConfigManager
   \<and> \<not> loads (files_unreadable ''db_config.ini'')
   \<and> connection_pool_ctor ini_build files_unreadable envs_ok raw_storage = Inr (raw_storage, [])"
  using construction_outcomes [of ini_build files_unreadable envs_ok raw_storage]
  by (simp add: createConfigManager_ini files_unreadable_def raw_storage_reset)

text \<open>
  Claim C5 as stated fails on both failures. A file that does not load leaves an empty
  pool and no exception; a server that cannot be reached leaves a pool whose one session
  fails \<open>isValid\<close>, counted and with both threads started.
\<close>

theorem construction_failures_not_fatal:
  "\<not> loads (files_unreadable ''db_config.ini'')
   \<and> connection_pool_ctor ini_build files_unreadable envs_ok raw_storage = Inr (raw_storage, [])
   \<and> getconnect_pool ini_build files_unreadable envs_ok raw_storage = Inr raw_storage
   \<and> \<not> mysql_real_connect_ok (envs_down 0)
   \<and> connection_pool_ctor ini_build (files_sized 1 2) envs_down raw_storage
       = Inr (stocked 1 2 [session 0 False], [Produce, Scanner])
   \<and> \<not> isValid 30 (session 0 False)"
  by (simp add: getconnect_pool_def connection_pool_ctor_def raw_storage_reset
      loadConfigFile_sized)
    (simp add: loadConfigFile_def createConfigManager_ini files_unreadable_def fresh_session_defs
      probe_defs)

section \<open>The producer\<close>

text \<open>
  Claim C6, as the code has it. In an iteration of the producer that finds the queue empty
  and the counter below \<open>maxSize\<close>, the new session is pushed and counted and the condition
  variable notified whether or not it opened: the result of \<open>connect\<close> is not read. The
  queue then holds exactly the new session, at the address the allocation gave it, with
  its alive time set to the current \<open>clock()\<close>; its driver handle is null when \<open>mysql_init\<close>
  failed and otherwise is connected exactly when \<open>mysql_real_connect\<close> succeeded, so the
  session passes \<open>isValid\<close> exactly when the open succeeded.
\<close>

theorem producer_counts_every_new_session:
  assumes "connectionQue p = []" and "connectionCnt p < maxSize p"
  shows "produce_iteration e p
           = Some (p\<lparr>connectionQue :=
                       [\<lparr>addr = address e,
                         conn = (if mysql_init_ok e
                                 then Some (Driver_handle (mysql_real_connect_ok e)) else None),
                         alivetime = clock e\<rparr>],
                     connectionCnt := connectionCnt p + 1,
                     cv_notified := cv_notified p + 1\<rparr>)
    \<and> isValid 30 \<lparr>addr = address e,
                   conn = (if mysql_init_ok e
                           then Some (Driver_handle (mysql_real_connect_ok e)) else None),
                   alivetime = clock e\<rparr>
        = (mysql_init_ok e \<and> mysql_real_connect_ok e)"
  using assms
  by (simp add: produce_iteration_def push_new_def new_connection_def connect_def
      refreshsAliveTime_def probe_defs Let_def)

theorem producer_counts_every_new_session_witness:
  "connectionQue (stocked 0 2 []) = []
   \<and> connectionCnt (stocked 0 2 []) < maxSize (stocked 0 2 [])
   \<and> produce_iteration (env_down\<lparr>clock := 7\<rparr>) (stocked 0 2 [])
       = Some ((stocked 0 2 [])
                 \<lparr>connectionQue := [\<lparr>addr = 0, conn = Some (Driver_handle False), alivetime = 7\<rparr>],
                   connectionCnt := 1, cv_notified := 1\<rparr>)"
proof -
  have h: "connectionQue (stocked 0 2 []) = []"
    "connectionCnt (stocked 0 2 []) < maxSize (stocked 0 2 [])"
    by (simp_all add: stocked_def configured_def)
  from producer_counts_every_new_session [OF h, of "env_down\<lparr>clock := 7\<rparr>"] h
  show ?thesis by (simp add: env_down_def stocked_def configured_def)
qed

text \<open>
  Claim C6 as stated fails: with the server unreachable the open fails, and the producer
  still pushes the session and increments the counter.
\<close>

theorem producer_enqueues_failed_open:
  "\<not> mysql_real_connect_ok env_down
   \<and> produce_iteration env_down (stocked 0 2 [])
       = Some ((stocked 0 2 [session 0 False])\<lparr>cv_notified := 1\<rparr>)
   \<and> connectionCnt ((stocked 0 2 [session 0 False])\<lparr>cv_notified := 1\<rparr>)
       = connectionCnt (stocked 0 2 []) + 1
   \<and> \<not> isValid 30 (session 0 False)"
  by (simp add: produce_iteration_def fresh_session_defs probe_defs)

section \<open>The scanner\<close>

lemma reconnect_addr: "addr (snd (reconnect e i po u pw d c)) = addr c"
  by (simp add: reconnect_def)

text \<open>
  The sessions a pass keeps are appended to \<open>validConns\<close> in the order of the queue, and a
  pass whose sessions are all healthy or reconnect does not take the counter below
  \<open>initSize\<close>.
\<close>

lemma scan_keeps_order:
  "scan envs p q cnt v = (cnt', v') \<Longrightarrow>
     \<exists>kept. v' = v @ kept \<and> subseq (map addr kept) (map addr q)"
proof (induction q arbitrary: cnt v)
  case Nil
  then show ?case by simp
next
  case (Cons front rest)
  let ?e = "envs (addr front)"
  obtain ok c where oc: "(if \<not> isValid 30 front
         then reconnect ?e (ip p) (port p) (username p) (password p) (dbname p) front
         else (True, front)) = (ok, c)"
    by (cases "(if \<not> isValid 30 front
         then reconnect ?e (ip p) (port p) (username p) (password p) (dbname p) front
         else (True, front))") auto
  then have ac: "addr c = addr front"
    using reconnect_addr [of ?e "ip p" "port p" "username p" "password p" "dbname p" front]
    by (auto split: if_splits)
  show ?case
  proof (cases "\<not> ok \<or> (getAliveTime ?e c \<ge> mul_int32 (maxIdleTime p) 1000 \<and> cnt > initSize p)")
    case True
    with Cons.prems oc have "scan envs p rest (cnt - 1) v = (cnt', v')"
      by (cases ok) (auto simp: Let_def split: if_splits)
    from Cons.IH [OF this] show ?thesis
      by (auto intro: subseq_Cons')
  next
    case False
    with Cons.prems oc have "scan envs p rest cnt (v @ [c]) = (cnt', v')"
      by (cases ok) (auto simp: Let_def split: if_splits)
    from Cons.IH [OF this] obtain kept where
      "v' = (v @ [c]) @ kept" "subseq (map addr kept) (map addr rest)"
      by blast
    then have "v' = v @ (c # kept) \<and> subseq (map addr (c # kept)) (map addr (front # rest))"
      using ac by simp
    then show ?thesis by blast
  qed
qed

lemma scan_trim_floor:
  "scan envs p q cnt v = (cnt', v') \<Longrightarrow> initSize p \<le> cnt \<Longrightarrow>
   list_all (\<lambda>c. isValid 30 c
       \<or> fst (reconnect (envs (addr c)) (ip p) (port p) (username p) (password p) (dbname p) c)) q
   \<Longrightarrow> initSize p \<le> cnt'"
proof (induction q arbitrary: cnt v)
  case Nil
  then show ?case by simp
next
  case (Cons front rest)
  then show ?case
    by (fastforce simp: Let_def split: prod.splits if_splits)
qed

text \<open>
  Claim C7 on the code, where \<open>CLOCKS_PER_SEC\<close> is 1000000. \<open>maxIdleTime\<close> is 60, which the
  scanner sleeps as seconds, and \<open>initSize\<close> is 1; the queue holds two healthy sessions,
  both counted, whose alive time is 60000 ticks, which is 0 whole seconds. The pass
  destroys the first and decrements the counter: the test compares the ticks with
  \<open>maxIdleTime * 1000\<close>.
\<close>

theorem scan_trims_session_idle_for_milliseconds:
  "scanner_sleep (stocked 1 6 [session 0 True, session 1 True]) = Seconds 60
   \<and> isValid 30 (session 0 True)
   \<and> getAliveTime (envs_at 60000 0) (session 0 True) = 60000
   \<and> seconds_of_ticks 1000000 (getAliveTime (envs_at 60000 0) (session 0 True)) = 0
   \<and> scan_pass (envs_at 60000) (stocked 1 6 [session 0 True, session 1 True])
       = stocked 1 6 [session 1 True]"
  by (simp add: scan_pass_def scanner_sleep_def mul_int32_def getAliveTime_def
      seconds_of_ticks_def probe_defs stocked_def configured_def session_def envs_at_def
      env_ok_def)

section \<open>Shutdown\<close>

lemma produceConnectionTask_never_returns: "produceConnectionTask fuel envs p = None"
  by (induction fuel arbitrary: p) (simp_all split: option.splits)

text \<open>
  Claim C8, as the code has it. \<open>shutdown\<close> sets the flag and empties the idle queue; it
  leaves the counter as it was and does not notify the condition variable. The producer
  does not read the flag: an iteration on a pool with the flag set does what it does
  without it, and \<open>produceConnectionTask\<close> never returns, whatever the number of
  iterations.
\<close>

theorem shutdown_sets_flag_and_drains:
  "shutdown_flag (shutdown p)
   \<and> connectionQue (shutdown p) = []
   \<and> connectionCnt (shutdown p) = connectionCnt p
   \<and> cv_notified (shutdown p) = cv_notified p
   \<and> produce_iteration e (q\<lparr>shutdown_flag := True\<rparr>)
       = map_option (\<lambda>r. r\<lparr>shutdown_flag := True\<rparr>) (produce_iteration e q)
   \<and> produceConnectionTask fuel envs q = None"
  by (simp add: shutdown_def produce_iteration_def push_new_def Let_def
      produceConnectionTask_never_returns)

text \<open>
  Claim C8 as stated fails: \<open>shutdown\<close> does not signal the condition variable, and the
  producer, finding the flag set, the queue empty and the counter below \<open>maxSize\<close>, opens a
  new session and goes on.
\<close>

theorem shutdown_without_signal_producer_goes_on:
  "cv_notified (shutdown (stocked 1 2 [session 0 True])) = cv_notified (stocked 1 2 [session 0 True])
   \<and> shutdown_flag (shutdown (stocked 1 2 [session 0 True]))
   \<and> produce_iteration (envs_ok 1) (shutdown (stocked 1 2 [session 0 True]))
       = Some ((stocked 1 2 [session 1 True])
                 \<lparr>connectionCnt := 2, shutdown_flag := True, cv_notified := 1\<rparr>)
   \<and> produceConnectionTask 3 envs_ok (shutdown (stocked 1 2 [session 0 True])) = None"
  by (simp add: produceConnectionTask_never_returns)
    (simp add: shutdown_def produce_iteration_def fresh_session_defs)

section \<open>Handles\<close>

text \<open>
  Claim C9, as the code has it. \<open>release()\<close> on a handle that holds a session returns the
  session to the caller and leaves the handle null. The pool is as before (the session is
  not pushed back and the counter still counts it), no connection is deleted, and the
  destruction of the released handle does nothing: the deleter does not run.
\<close>

theorem release_hands_session_to_caller:
  assumes "ptr h = Some c"
  shows "release owner h = (Some c, \<lparr>ptr = None\<rparr>, owner, [])
    \<and> destroy_handle e owner (fst (snd (release owner h))) = (owner, [])"
  using assms by (simp add: release_def destroy_handle_def)

theorem release_hands_session_to_caller_witness:
  "ptr \<lparr>ptr = Some (session 0 True)\<rparr> = Some (session 0 True)
   \<and> release (Some ((stocked 1 2 [])\<lparr>connectionCnt := 1\<rparr>)) \<lparr>ptr = Some (session 0 True)\<rparr>
       = (Some (session 0 True), \<lparr>ptr = None\<rparr>, Some ((stocked 1 2 [])\<lparr>connectionCnt := 1\<rparr>), [])"
proof -
  have h: "ptr \<lparr>ptr = Some (session 0 True)\<rparr> = Some (session 0 True)"
    by simp
  from release_hands_session_to_caller [OF h, of "Some ((stocked 1 2 [])\<lparr>connectionCnt := 1\<rparr>)" env_ok] h
  show ?thesis by simp
qed

text \<open>
  Claim C9 as stated fails: after \<open>release()\<close> the session is not destroyed. The caller
  holds it, it still passes \<open>isValid\<close>, and nothing was deleted.
\<close>

theorem release_does_not_destroy:
  "release (Some ((stocked 1 2 [])\<lparr>connectionCnt := 1\<rparr>)) \<lparr>ptr = Some (session 0 True)\<rparr>
     = (Some (session 0 True), \<lparr>ptr = None\<rparr>, Some ((stocked 1 2 [])\<lparr>connectionCnt := 1\<rparr>), [])
   \<and> isValid 30 (session 0 True)"
  by (simp add: release_def probe_defs session_def)

end
